theory Spec2Isabelle
  imports Main
begin

section \<open>Values, exceptions and the validation schema\<close>

text \<open>
  The library is a set of React components. Its source file holds three modules one after
  the other: the package index, \<^verbatim>\<open>components/form-input\<close> and \<^verbatim>\<open>components/form\<close>. The
  embedding keeps what the components compute: prop resolution, the form's error state and
  its handlers, the per-field context and the attributes of the rendered elements. Class
  names (\<^verbatim>\<open>cn\<close>) and the preserved form data (\<^verbatim>\<open>formData\<close>, \<^verbatim>\<open>defaultValue\<close>) are left
  out: no function below reads them.

  A \<^typ>\<open>string\<close> is the list of the code units of a JavaScript string; the model has the
  code units below 256. An object is the finite map of its own properties. The props of a
  component are only read at keys that \<^verbatim>\<open>Object.prototype\<close> does not have (\<^verbatim>\<open>schema\<close>,
  \<^verbatim>\<open>field\<close>, \<^verbatim>\<open>name\<close>, \<^verbatim>\<open>label\<close>, \<^verbatim>\<open>required\<close>, \<^verbatim>\<open>disabled\<close>, \<^verbatim>\<open>children\<close>), so
  for them the own properties decide. The error maps and the schema's shape are read at a
  field name, which can be any string: those reads go through \<^verbatim>\<open>Object.prototype\<close> and
  are modelled so below.
\<close>

text \<open>
  A thrown exception: \<^verbatim>\<open>new Error(message)\<close>, or the \<^verbatim>\<open>TypeError\<close> the runtime throws
  when a property of \<^verbatim>\<open>undefined\<close> is read.
\<close>

datatype js_error = Error string | TypeError

text \<open>
  The external validation library (zod) is an opaque capability. A field schema is what its
  \<^verbatim>\<open>parse\<close> does on a value (the string \<^verbatim>\<open>e.target.value\<close> of an input): it returns,
  throws a \<^verbatim>\<open>ZodError\<close> (the messages of \<^verbatim>\<open>error.issues\<close>, in order), or throws
  something else. A \<^verbatim>\<open>ZodObject\<close> is its \<^verbatim>\<open>shape\<close>.
\<close>

datatype parse_outcome = Parsed | ZodError "string list" | OtherError

type_synonym ZodType = "string \<Rightarrow> parse_outcome"

type_synonym ZodObject = "string \<rightharpoonup> ZodType"

text \<open>
  The values a prop can hold. \<open>JOther s\<close> is any other value (a number, a function, an
  element, a plain object), kept by the string that \<^verbatim>\<open>String()\<close> gives for it.
\<close>

datatype jsval = Undefined | Null | JBool bool | JStr string | JSchema ZodObject | JOther string

type_synonym props = "string \<rightharpoonup> jsval"

text \<open>\<^verbatim>\<open>props.key\<close>: the value of an own property, \<^verbatim>\<open>undefined\<close> when the key is absent.\<close>

definition getProp :: "props \<Rightarrow> string \<Rightarrow> jsval" where
  "getProp ps key = (case ps key of None \<Rightarrow> Undefined | Some v \<Rightarrow> v)"

text \<open>\<^verbatim>\<open>String(v)\<close>, which is also the property key \<^verbatim>\<open>obj[v]\<close> reads.\<close>

fun String_js :: "jsval \<Rightarrow> string" where
  "String_js Undefined = ''undefined''"
| "String_js Null = ''null''"
| "String_js (JBool b) = (if b then ''true'' else ''false'')"
| "String_js (JStr s) = s"
| "String_js (JSchema z) = ''[object Object]''"
| "String_js (JOther s) = s"

text \<open>\<^verbatim>\<open>a ?? b\<close>\<close>

definition nullish_or :: "jsval \<Rightarrow> jsval \<Rightarrow> jsval" where
  "nullish_or a b = (if a = Undefined \<or> a = Null then b else a)"

text \<open>
  Truthiness of a \<^verbatim>\<open>string | null | undefined\<close>: \<open>None\<close> stands for both \<^verbatim>\<open>null\<close> and
  \<^verbatim>\<open>undefined\<close>, and the empty string is falsy.
\<close>

definition truthy :: "string option \<Rightarrow> bool" where
  "truthy v = (case v of None \<Rightarrow> False | Some s \<Rightarrow> s \<noteq> [])"

text \<open>\<^verbatim>\<open>a || b\<close> on such values.\<close>

definition or_js :: "string option \<Rightarrow> string option \<Rightarrow> string option" where
  "or_js a b = (if truthy a then a else b)"

text \<open>
  The property names of \<^verbatim>\<open>Object.prototype\<close>, as ECMAScript defines it. Every plain object
  (an object literal, the result of a spread) inherits them, and each of them is a function
  or an object: a truthy value that is not a string.
\<close>

definition objectPrototypeKeys :: "string set" where
  "objectPrototypeKeys =
     {''constructor'', ''hasOwnProperty'', ''isPrototypeOf'', ''propertyIsEnumerable'',
      ''toLocaleString'', ''toString'', ''valueOf'', ''__proto__'',
      ''__defineGetter__'', ''__defineSetter__'', ''__lookupGetter__'', ''__lookupSetter__''}"

text \<open>
  What \<^verbatim>\<open>obj[key]\<close> gives on a plain object whose own properties hold strings: the own
  string, else the inherited member of \<^verbatim>\<open>Object.prototype\<close> of that name, else
  \<^verbatim>\<open>undefined\<close>. \<open>NoEntry\<close> also stands for \<^verbatim>\<open>null\<close>.
\<close>

datatype entry = NoEntry | Message string | ProtoMember string

definition readEntry :: "(string \<rightharpoonup> string) \<Rightarrow> string \<Rightarrow> entry" where
  "readEntry obj key =
     (case obj key of
        Some s \<Rightarrow> Message s
      | None \<Rightarrow> if key \<in> objectPrototypeKeys then ProtoMember key else NoEntry)"

text \<open>Truthiness of such a value, and \<^verbatim>\<open>a || b\<close> on two of them.\<close>

definition truthyEntry :: "entry \<Rightarrow> bool" where
  "truthyEntry e = (case e of NoEntry \<Rightarrow> False | Message s \<Rightarrow> s \<noteq> [] | ProtoMember k \<Rightarrow> True)"

definition or_entry :: "entry \<Rightarrow> entry \<Rightarrow> entry" where
  "or_entry a b = (if truthyEntry a then a else b)"

text \<open>An own property, or its absence, as such a value.\<close>

definition entryOf :: "string option \<Rightarrow> entry" where
  "entryOf v = (case v of None \<Rightarrow> NoEntry | Some s \<Rightarrow> Message s)"

section \<open>Schema-driven helpers of the input components\<close>

text \<open>\<^verbatim>\<open>.replace(/([A-Z])/g, ' $1')\<close>: a space before every capital letter.\<close>

definition isCapital :: "char \<Rightarrow> bool" where
  "isCapital c = (65 \<le> (of_char c :: nat) \<and> (of_char c :: nat) \<le> 90)"

fun spaceBeforeCapitals :: "string \<Rightarrow> string" where
  "spaceBeforeCapitals [] = []"
| "spaceBeforeCapitals (c # cs) =
     (if isCapital c then CHR '' '' # c # spaceBeforeCapitals cs
      else c # spaceBeforeCapitals cs)"

text \<open>
  \<^verbatim>\<open>.replace(/^./, str => str.toUpperCase())\<close>: the first code unit in upper case; the
  dot matches no line terminator, so a string that starts with one is unchanged.
  \<^verbatim>\<open>String.prototype.toUpperCase\<close> is the runtime's: its Unicode case mapping is not part
  of this library, so it is a parameter, \<open>upper\<close>, from one code unit to the string the
  runtime returns for it (\<^verbatim>\<open>"SS"\<close> for U+00DF).
\<close>

definition isLineTerminator :: "char \<Rightarrow> bool" where
  "isLineTerminator c = ((of_char c :: nat) = 10 \<or> (of_char c :: nat) = 13)"

definition capitalizeFirst :: "(char \<Rightarrow> string) \<Rightarrow> string \<Rightarrow> string" where
  "capitalizeFirst upper s =
     (case s of [] \<Rightarrow> []
      | c # cs \<Rightarrow> if isLineTerminator c then s else upper c @ cs)"

text \<open>
  \<^verbatim>\<open>.trim()\<close>: white space and line terminators off both ends. Below 256 these are the
  code units 9 to 13, 32 and 160 (the no-break space).
\<close>

definition isWhiteSpace :: "char \<Rightarrow> bool" where
  "isWhiteSpace c = ((of_char c :: nat) \<in> {9, 10, 11, 12, 13, 32, 160})"

definition trim :: "string \<Rightarrow> string" where
  "trim s = rev (dropWhile isWhiteSpace (rev (dropWhile isWhiteSpace s)))"

definition humanizeFieldName :: "(char \<Rightarrow> string) \<Rightarrow> string \<Rightarrow> string" where
  "humanizeFieldName upper fieldName =
     trim (capitalizeFirst upper (spaceBeforeCapitals fieldName))"

text \<open>
  \<^verbatim>\<open>toUpperCase\<close> as it is on ASCII code units, for the examples, whose field names are
  ASCII: a lower-case letter becomes the upper-case one, every other ASCII code unit stays.
\<close>

definition toUpperCase_ascii :: "char \<Rightarrow> string" where
  "toUpperCase_ascii c =
     (if 97 \<le> (of_char c :: nat) \<and> (of_char c :: nat) \<le> 122
      then [char_of ((of_char c :: nat) - 32)] else [c])"

text \<open>The object \<^verbatim>\<open>getFieldInfo\<close> returns.\<close>

record FieldInfo =
  name :: string
  label :: string

text \<open>
  \<^verbatim>\<open>getFieldInfo(schema, fieldName)\<close>: throws when \<^verbatim>\<open>schema.shape[fieldName]\<close> is
  falsy. The shape is a plain object, so the read finds a field schema of the shape or an
  inherited member of \<^verbatim>\<open>Object.prototype\<close>, both truthy, and is \<^verbatim>\<open>undefined\<close> otherwise.
\<close>

definition getFieldInfo :: "(char \<Rightarrow> string) \<Rightarrow> ZodObject \<Rightarrow> jsval \<Rightarrow> js_error + FieldInfo" where
  \<open>getFieldInfo upper schema fieldName =
     (if String_js fieldName \<in> dom schema \<or> String_js fieldName \<in> objectPrototypeKeys then
        Inr \<lparr> name = String_js fieldName,
              label = humanizeFieldName upper (String_js fieldName) \<rparr>
      else Inl (Error (''Field "'' @ String_js fieldName @ ''" not found in schema'')))\<close>

section \<open>The form: state, context and field validation\<close>

text \<open>
  \<^verbatim>\<open>FormState\<close>, the result of a submission action (\<^verbatim>\<open>data\<close> is not read below). The
  two effects of \<^verbatim>\<open>Form\<close> (calling \<^verbatim>\<open>onSuccess\<close>, and emptying \<^verbatim>\<open>clearedServerErrors\<close>
  when the action state brings new field errors) belong to the submission cycle and are not
  modelled: what follows is about one render and about one call of a handler.
\<close>

record FormState =
  success :: bool
  error :: "string option"
  fieldErrors :: "(string \<rightharpoonup> string) option"

text \<open>
  The two \<^verbatim>\<open>useState\<close> cells of \<^verbatim>\<open>Form\<close>. \<^verbatim>\<open>FormContextValue\<close> carries both of them,
  so the context record extends this one.
\<close>

record Form_cells =
  clientFieldErrors :: "string \<rightharpoonup> string"
  clearedServerErrors :: "string set"

record FormContextValue = Form_cells +
  fieldErrors :: "string \<rightharpoonup> string"
  formError :: "string option"
  isSubmitting :: bool
  formId :: string
  schema :: "ZodObject option"

text \<open>The cells as \<^verbatim>\<open>Form\<close> mounts: \<^verbatim>\<open>useState({})\<close> and \<^verbatim>\<open>useState(new Set())\<close>.\<close>

definition Form_initial_cells :: Form_cells where
  "Form_initial_cells = \<lparr> clientFieldErrors = Map.empty, clearedServerErrors = {} \<rparr>"

text \<open>
  The \<^verbatim>\<open>contextValue\<close> a render of \<^verbatim>\<open>Form\<close> provides, from the action state, the pending
  flag, the id of \<^verbatim>\<open>useId\<close>, the \<^verbatim>\<open>schema\<close> prop and the cells.
\<close>

definition Form_contextValue ::
    "FormState \<Rightarrow> bool \<Rightarrow> string \<Rightarrow> ZodObject option \<Rightarrow> Form_cells \<Rightarrow> FormContextValue" where
  "Form_contextValue st isPending fid sch cells =
     \<lparr> clientFieldErrors = clientFieldErrors cells,
       clearedServerErrors = clearedServerErrors cells,
       fieldErrors = (case FormState.fieldErrors st of None \<Rightarrow> Map.empty | Some m \<Rightarrow> m),
       formError = or_js (error st) None,
       isSubmitting = isPending,
       formId = fid,
       schema = sch \<rparr>"

text \<open>
  \<^verbatim>\<open>validateField(fieldName, value)\<close>: \<^verbatim>\<open>null\<close> without a schema, for a field the shape
  does not have, and for a value that parses; the first issue's message, or
  \<^verbatim>\<open>'Invalid value'\<close> when that is missing or empty, for a \<^verbatim>\<open>ZodError\<close>. Any other
  exception is swallowed by the \<^verbatim>\<open>catch\<close>, so the function has no exceptional outcome.
  That covers a field name the shape only inherits from \<^verbatim>\<open>Object.prototype\<close>: the member
  has no \<^verbatim>\<open>parse\<close>, the call throws a \<^verbatim>\<open>TypeError\<close>, and the result is \<^verbatim>\<open>null\<close> as for a
  name the read does not find.
\<close>

definition validateField :: "ZodObject option \<Rightarrow> string \<Rightarrow> string \<Rightarrow> string option" where
  "validateField sch fieldName v =
     (case sch of
        None \<Rightarrow> None
      | Some shape \<Rightarrow>
          (case shape fieldName of
             None \<Rightarrow> None
           | Some fieldSchema \<Rightarrow>
               (case fieldSchema v of
                  Parsed \<Rightarrow> None
                | ZodError issues \<Rightarrow>
                    (case issues of
                       [] \<Rightarrow> Some ''Invalid value''
                     | m # _ \<Rightarrow> if m \<noteq> [] then Some m else Some ''Invalid value'')
                | OtherError \<Rightarrow> None)))"

text \<open>\<^verbatim>\<open>clearFieldError\<close> and \<^verbatim>\<open>setFieldError\<close>, as the updates they queue on the cells.\<close>

definition clearFieldError :: "string \<Rightarrow> Form_cells \<Rightarrow> Form_cells" where
  "clearFieldError fieldName cells =
     cells \<lparr> clientFieldErrors := (clientFieldErrors cells)(fieldName := None),
             clearedServerErrors := insert fieldName (clearedServerErrors cells) \<rparr>"

definition setFieldError :: "string \<Rightarrow> string \<Rightarrow> Form_cells \<Rightarrow> Form_cells" where
  "setFieldError fieldName err cells =
     cells \<lparr> clientFieldErrors := (clientFieldErrors cells)(fieldName \<mapsto> err) \<rparr>"

text \<open>\<^verbatim>\<open>useFormContext()\<close>: the nearest provider's value, \<open>None\<close> outside every \<^verbatim>\<open>Form\<close>.\<close>

definition useFormContext :: "FormContextValue option \<Rightarrow> js_error + FormContextValue" where
  "useFormContext ctx =
     (case ctx of
        None \<Rightarrow> Inl (Error ''useFormContext must be used within a Form component'')
      | Some c \<Rightarrow> Inr c)"

section \<open>Prop resolution of the input components\<close>

definition isSchemaProps :: "props \<Rightarrow> bool" where
  "isSchemaProps ps = (''schema'' \<in> dom ps \<and> ''field'' \<in> dom ps)"

definition isContextProps :: "props \<Rightarrow> bool" where
  "isContextProps ps = (''field'' \<in> dom ps \<and> ''name'' \<notin> dom ps \<and> ''schema'' \<notin> dom ps)"

text \<open>
  The object literal both schema branches return:
  \<^verbatim>\<open>{ name: schemaInfo.name, label: props.label ?? schemaInfo.label, required: props.required, ...restProps }\<close>.
  The spread comes last, so a key of \<open>restProps\<close> replaces the one written before it.
\<close>

definition resolvedFromInfo :: "FieldInfo \<Rightarrow> props \<Rightarrow> props \<Rightarrow> props" where
  "resolvedFromInfo schemaInfo ps restProps =
     [''name'' \<mapsto> JStr (FieldInfo.name schemaInfo),
      ''label'' \<mapsto> nullish_or (getProp ps ''label'') (JStr (FieldInfo.label schemaInfo)),
      ''required'' \<mapsto> getProp ps ''required''] ++ restProps"

text \<open>
  \<^verbatim>\<open>resolvedProps\<close> of \<^verbatim>\<open>FormInput\<close>. In the first branch \<^verbatim>\<open>props.schema!\<close> may be
  anything but a \<^verbatim>\<open>ZodObject\<close> (the key is there, its value \<^verbatim>\<open>undefined\<close>); reading
  \<^verbatim>\<open>schema.shape[fieldName]\<close> then throws a \<^verbatim>\<open>TypeError\<close>.
\<close>

definition FormInput_resolvedProps ::
    "(char \<Rightarrow> string) \<Rightarrow> FormContextValue \<Rightarrow> props \<Rightarrow> js_error + props" where
  \<open>FormInput_resolvedProps upper formContext ps =
     (if isSchemaProps ps then
        (case (case getProp ps ''schema'' of
                 JSchema z \<Rightarrow> getFieldInfo upper z (getProp ps ''field'')
               | _ \<Rightarrow> Inl TypeError) of
           Inl e \<Rightarrow> Inl e
         | Inr schemaInfo \<Rightarrow>
             Inr (resolvedFromInfo schemaInfo ps (ps |` (- {''schema'', ''field''}))))
      else if isContextProps ps then
        (case schema formContext of
           None \<Rightarrow>
             Inl (Error (''FormInput with field "'' @ String_js (getProp ps ''field'') @
                         ''" requires either a schema prop or schema in Form context''))
         | Some z \<Rightarrow>
             (case getFieldInfo upper z (getProp ps ''field'') of
                Inl e \<Rightarrow> Inl e
              | Inr schemaInfo \<Rightarrow> Inr (resolvedFromInfo schemaInfo ps (ps |` (- {''field''})))))
      else Inr ps)\<close>

text \<open>
  \<^verbatim>\<open>resolvedProps\<close> of \<^verbatim>\<open>FormTextarea\<close>, \<^verbatim>\<open>FormSelect\<close> and \<^verbatim>\<open>FormRadioGroup\<close>: the
  three bodies are the same but for the component's name in the message.
\<close>

definition contextResolvedProps ::
    "string \<Rightarrow> (char \<Rightarrow> string) \<Rightarrow> FormContextValue \<Rightarrow> props \<Rightarrow> js_error + props" where
  \<open>contextResolvedProps component upper formContext ps =
     (if ''field'' \<in> dom ps \<and> ''name'' \<notin> dom ps then
        (case schema formContext of
           None \<Rightarrow>
             Inl (Error (component @ '' with field "'' @ String_js (getProp ps ''field'') @
                         ''" requires schema in Form context''))
         | Some z \<Rightarrow>
             (case getFieldInfo upper z (getProp ps ''field'') of
                Inl e \<Rightarrow> Inl e
              | Inr schemaInfo \<Rightarrow> Inr (resolvedFromInfo schemaInfo ps (ps |` (- {''field''})))))
      else Inr ps)\<close>

definition FormTextarea_resolvedProps ::
    "(char \<Rightarrow> string) \<Rightarrow> FormContextValue \<Rightarrow> props \<Rightarrow> js_error + props" where
  "FormTextarea_resolvedProps = contextResolvedProps ''FormTextarea''"

definition FormSelect_resolvedProps ::
    "(char \<Rightarrow> string) \<Rightarrow> FormContextValue \<Rightarrow> props \<Rightarrow> js_error + props" where
  "FormSelect_resolvedProps = contextResolvedProps ''FormSelect''"

definition FormRadioGroup_resolvedProps ::
    "(char \<Rightarrow> string) \<Rightarrow> FormContextValue \<Rightarrow> props \<Rightarrow> js_error + props" where
  "FormRadioGroup_resolvedProps = contextResolvedProps ''FormRadioGroup''"

text \<open>\<^verbatim>\<open>resolvedProps\<close> of \<^verbatim>\<open>FormCheckbox\<close>: the name is the field, and no schema is read.\<close>

definition FormCheckbox_resolvedProps :: "FormContextValue \<Rightarrow> props \<Rightarrow> js_error + props" where
  "FormCheckbox_resolvedProps formContext ps =
     (if ''field'' \<in> dom ps \<and> ''name'' \<notin> dom ps then
        Inr ([''name'' \<mapsto> getProp ps ''field''] ++ (ps |` (- {''field''})))
      else Inr ps)"

text \<open>
  Each component first calls \<^verbatim>\<open>useFormContext()\<close> and then resolves its props; nothing
  after that in its body throws. The result is the resolved props it renders from. The
  components that humanize a field name take the runtime's \<open>upper\<close>.
\<close>

definition withFormContext ::
    "(FormContextValue \<Rightarrow> props \<Rightarrow> js_error + props) \<Rightarrow> FormContextValue option \<Rightarrow> props
      \<Rightarrow> js_error + props" where
  "withFormContext resolve ctx ps =
     (case useFormContext ctx of Inl e \<Rightarrow> Inl e | Inr formContext \<Rightarrow> resolve formContext ps)"

definition FormInput ::
    "(char \<Rightarrow> string) \<Rightarrow> FormContextValue option \<Rightarrow> props \<Rightarrow> js_error + props" where
  "FormInput upper = withFormContext (FormInput_resolvedProps upper)"

definition FormTextarea ::
    "(char \<Rightarrow> string) \<Rightarrow> FormContextValue option \<Rightarrow> props \<Rightarrow> js_error + props" where
  "FormTextarea upper = withFormContext (FormTextarea_resolvedProps upper)"

definition FormSelect ::
    "(char \<Rightarrow> string) \<Rightarrow> FormContextValue option \<Rightarrow> props \<Rightarrow> js_error + props" where
  "FormSelect upper = withFormContext (FormSelect_resolvedProps upper)"

definition FormCheckbox :: "FormContextValue option \<Rightarrow> props \<Rightarrow> js_error + props" where
  "FormCheckbox = withFormContext FormCheckbox_resolvedProps"

definition FormRadioGroup ::
    "(char \<Rightarrow> string) \<Rightarrow> FormContextValue option \<Rightarrow> props \<Rightarrow> js_error + props" where
  "FormRadioGroup upper = withFormContext (FormRadioGroup_resolvedProps upper)"

section \<open>Blur and change handlers\<close>

text \<open>
  A handler reads the context of the render that created it (\<open>formContext\<close>) and queues
  updates on the cells of the form; the result is the cells after those updates. The
  caller's own \<^verbatim>\<open>onBlur\<close> or \<^verbatim>\<open>onChange\<close> runs afterwards and is not part of the handler's
  update. \<open>nm\<close> is the resolved \<^verbatim>\<open>name\<close>, \<open>v\<close> is \<^verbatim>\<open>e.target.value\<close>.
\<close>

text \<open>
  \<^verbatim>\<open>handleBlur\<close> of \<^verbatim>\<open>FormInput\<close>: validate, then \<^verbatim>\<open>setFieldError\<close> on a truthy result and
  \<^verbatim>\<open>clearFieldError\<close> otherwise.
\<close>

definition FormInput_handleBlur ::
    "FormContextValue \<Rightarrow> string \<Rightarrow> string \<Rightarrow> Form_cells \<Rightarrow> Form_cells" where
  "FormInput_handleBlur formContext nm v cells =
     (case validateField (schema formContext) nm v of
        None \<Rightarrow> clearFieldError nm cells
      | Some err \<Rightarrow> if err \<noteq> [] then setFieldError nm err cells else clearFieldError nm cells)"

text \<open>
  \<^verbatim>\<open>handleBlur\<close> of \<^verbatim>\<open>FormTextarea\<close> and \<^verbatim>\<open>FormSelect\<close>, \<^verbatim>\<open>handleChange\<close> of
  \<^verbatim>\<open>FormSelect\<close> and \<^verbatim>\<open>handleRadioChange\<close> of \<^verbatim>\<open>FormRadioGroup\<close> have the same body.
  \<^verbatim>\<open>FormCheckbox\<close> installs no handler.
\<close>

definition FormTextarea_handleBlur ::
    "FormContextValue \<Rightarrow> string \<Rightarrow> string \<Rightarrow> Form_cells \<Rightarrow> Form_cells" where
  "FormTextarea_handleBlur = FormInput_handleBlur"

definition FormSelect_handleBlur ::
    "FormContextValue \<Rightarrow> string \<Rightarrow> string \<Rightarrow> Form_cells \<Rightarrow> Form_cells" where
  "FormSelect_handleBlur = FormInput_handleBlur"

definition FormSelect_handleChange ::
    "FormContextValue \<Rightarrow> string \<Rightarrow> string \<Rightarrow> Form_cells \<Rightarrow> Form_cells" where
  "FormSelect_handleChange = FormInput_handleBlur"

definition FormRadioGroup_handleRadioChange ::
    "FormContextValue \<Rightarrow> string \<Rightarrow> string \<Rightarrow> Form_cells \<Rightarrow> Form_cells" where
  "FormRadioGroup_handleRadioChange = FormInput_handleBlur"

text \<open>
  \<^verbatim>\<open>handleChange\<close> of \<^verbatim>\<open>FormInput\<close>: only when
  \<^verbatim>\<open>clientFieldErrors[name] || fieldErrors[name]\<close> of the rendered context is truthy is
  the value validated, and only a valid value changes the cells.
\<close>

definition FormInput_handleChange ::
    "FormContextValue \<Rightarrow> string \<Rightarrow> string \<Rightarrow> Form_cells \<Rightarrow> Form_cells" where
  "FormInput_handleChange formContext nm v cells =
     (if truthyEntry (readEntry (clientFieldErrors formContext) nm)
         \<or> truthyEntry (readEntry (fieldErrors formContext) nm) then
        (if \<not> truthy (validateField (schema formContext) nm v) then clearFieldError nm cells
         else cells)
      else cells)"

definition FormTextarea_handleChange ::
    "FormContextValue \<Rightarrow> string \<Rightarrow> string \<Rightarrow> Form_cells \<Rightarrow> Form_cells" where
  "FormTextarea_handleChange = FormInput_handleChange"

section \<open>The field context and the elements that read it\<close>

record FormFieldContextValue =
  name :: string
  fieldId :: string
  hasError :: bool
  errorMessage :: entry

text \<open>
  \<^verbatim>\<open>FormField\<close>: the value it provides to its children. The server error is hidden once
  the field is in \<^verbatim>\<open>clearedServerErrors\<close> (a \<^verbatim>\<open>Set\<close>); \<^verbatim>\<open>serverError || clientError\<close>
  picks the message. \<^verbatim>\<open>fieldErrors[name]\<close> and \<^verbatim>\<open>clientFieldErrors[name]\<close> are reads on
  plain objects.
\<close>

definition FormField :: "FormContextValue option \<Rightarrow> string \<Rightarrow> js_error + FormFieldContextValue" where
  "FormField ctx nm =
     (case useFormContext ctx of
        Inl e \<Rightarrow> Inl e
      | Inr c \<Rightarrow>
          (let serverError =
                 (if nm \<in> clearedServerErrors c then NoEntry else readEntry (fieldErrors c) nm);
               clientError = readEntry (clientFieldErrors c) nm;
               message = or_entry serverError clientError
           in Inr \<lparr> name = nm,
                    fieldId = formId c @ ''-'' @ nm,
                    hasError = truthyEntry message,
                    errorMessage = message \<rparr>))"

text \<open>\<^verbatim>\<open>useFormField()\<close>: \<open>None\<close> outside every \<^verbatim>\<open>FormField\<close>.\<close>

definition useFormField :: "FormFieldContextValue option \<Rightarrow> js_error + FormFieldContextValue" where
  "useFormField fctx =
     (case fctx of
        None \<Rightarrow> Inl (Error ''useFormField must be used within a FormField component'')
      | Some f \<Rightarrow> Inr f)"

text \<open>
  A rendered element is the map of its props; \<^verbatim>\<open>className\<close> is left out. Where the
  component writes the child itself, the element is that map without \<^verbatim>\<open>children\<close> and
  the child. \<^verbatim>\<open>FormLabel\<close>, \<^verbatim>\<open>FormMessage\<close>, \<^verbatim>\<open>FormError\<close> and \<^verbatim>\<open>FormSubmit\<close> spread
  the caller's props after their own attributes, so a caller's key replaces the
  component's.
\<close>

record 'c element =
  attrs :: props
  children :: 'c

definition FormLabel :: "FormFieldContextValue option \<Rightarrow> props \<Rightarrow> js_error + props" where
  "FormLabel fctx ps =
     (case useFormField fctx of
        Inl e \<Rightarrow> Inl e
      | Inr f \<Rightarrow> Inr ([''htmlFor'' \<mapsto> JStr (fieldId f)] ++ (ps |` (- {''className''}))))"

text \<open>
  \<^verbatim>\<open>FormControl\<close>: \<^verbatim>\<open>React.cloneElement(children, {...})\<close>, whose second argument replaces
  the child's own props, also where it holds \<^verbatim>\<open>undefined\<close>. \<open>child\<close> is the props of the
  one child element.
\<close>

definition FormControl :: "FormFieldContextValue option \<Rightarrow> props \<Rightarrow> js_error + props" where
  "FormControl fctx child =
     (case useFormField fctx of
        Inl e \<Rightarrow> Inl e
      | Inr f \<Rightarrow>
          Inr (child ++
               [''id'' \<mapsto> JStr (fieldId f),
                ''name'' \<mapsto> JStr (name f),
                ''aria-invalid'' \<mapsto> JStr (if hasError f then ''true'' else ''false''),
                ''aria-describedby'' \<mapsto>
                   (if hasError f then JStr (fieldId f @ ''-error'') else Undefined)]))"

text \<open>
  \<^verbatim>\<open>FormMessage\<close>: nothing (\<open>None\<close>) unless the field has an error with a truthy message;
  else a paragraph whose child is \<^verbatim>\<open>errorMessage\<close>.
\<close>

definition FormMessage ::
    "FormFieldContextValue option \<Rightarrow> props \<Rightarrow> js_error + entry element option" where
  "FormMessage fctx ps =
     (case useFormField fctx of
        Inl e \<Rightarrow> Inl e
      | Inr f \<Rightarrow>
          (if \<not> hasError f \<or> \<not> truthyEntry (errorMessage f) then Inr None
           else Inr (Some \<lparr> attrs = [''id'' \<mapsto> JStr (fieldId f @ ''-error'')]
                                     ++ (ps |` (- {''className'', ''children''})),
                              children = errorMessage f \<rparr>)))"

text \<open>\<^verbatim>\<open>FormError\<close>: nothing unless the form has an error; else a box whose child is it.\<close>

definition FormError ::
    "FormContextValue option \<Rightarrow> props \<Rightarrow> js_error + string option element option" where
  "FormError ctx ps =
     (case useFormContext ctx of
        Inl e \<Rightarrow> Inl e
      | Inr c \<Rightarrow>
          (if \<not> truthy (formError c) then Inr None
           else Inr (Some \<lparr> attrs = ps |` (- {''className'', ''children''}),
                              children = formError c \<rparr>)))"

text \<open>
  \<^verbatim>\<open>FormSubmit\<close>: a submit button, disabled by \<^verbatim>\<open>isSubmitting || props.disabled\<close> unless
  the spread replaces that, whose child is \<^verbatim>\<open>'Submitting...'\<close> while the form submits.
\<close>

definition FormSubmit :: "FormContextValue option \<Rightarrow> props \<Rightarrow> js_error + jsval element" where
  "FormSubmit ctx ps =
     (case useFormContext ctx of
        Inl e \<Rightarrow> Inl e
      | Inr c \<Rightarrow>
          Inr \<lparr> attrs = [''type'' \<mapsto> JStr ''submit'',
                         ''disabled'' \<mapsto>
                            (if isSubmitting c then JBool True else getProp ps ''disabled'')]
                        ++ (ps |` (- {''className'', ''children''})),
                children = (if isSubmitting c then JStr ''Submitting...''
                            else getProp ps ''children'') \<rparr>)"

text \<open>
  The value of one prop of a rendered element or of resolved props, or the exception thrown
  instead.
\<close>

definition attr :: "string \<Rightarrow> js_error + props \<Rightarrow> js_error + jsval option" where
  "attr key r = (case r of Inl e \<Rightarrow> Inl e | Inr el \<Rightarrow> Inr (el key))"

text \<open>
  The same for what \<^verbatim>\<open>FormMessage\<close> returns: \<open>Inr None\<close> when it renders nothing. A
  rendered paragraph always has an \<^verbatim>\<open>id\<close>.
\<close>

definition messageAttr ::
    "string \<Rightarrow> js_error + entry element option \<Rightarrow> js_error + jsval option" where
  "messageAttr key r =
     (case r of Inl e \<Rightarrow> Inl e | Inr None \<Rightarrow> Inr None
      | Inr (Some el) \<Rightarrow> Inr (attrs el key))"

section \<open>A sign-up form as running example\<close>

text \<open>
  A schema with two fields: \<^verbatim>\<open>email\<close>, which rejects the empty string, and
  \<^verbatim>\<open>firstName\<close>, which accepts every value; an action state that reports a server error
  for \<^verbatim>\<open>email\<close>; the first render of the form with them.
\<close>

definition signup_schema :: ZodObject where
  "signup_schema =
     [''email'' \<mapsto> (\<lambda>v. if v = [] then ZodError [''Email is required''] else Parsed),
      ''firstName'' \<mapsto> (\<lambda>v. Parsed)]"

definition signup_state :: FormState where
  "signup_state =
     \<lparr> success = False, error = None,
       fieldErrors = Some [''email'' \<mapsto> ''Email already taken''] \<rparr>"

definition signup_context :: FormContextValue where
  "signup_context =
     Form_contextValue signup_state False ''f1'' (Some signup_schema) Form_initial_cells"

text \<open>The same form without a schema.\<close>

definition plain_context :: FormContextValue where
  "plain_context = Form_contextValue signup_state False ''f1'' None Form_initial_cells"

text \<open>What \<^verbatim>\<open>FormField\<close> provides for \<^verbatim>\<open>email\<close> in that first render.\<close>

definition signup_email_field :: FormFieldContextValue where
  "signup_email_field =
     \<lparr> name = ''email'', fieldId = ''f1-email'', hasError = True,
       errorMessage = Message ''Email already taken'' \<rparr>"

text \<open>A form without a schema, before any submission and any edit.\<close>

definition fresh_context :: FormContextValue where
  "fresh_context =
     Form_contextValue \<lparr> success = False, error = None, fieldErrors = None \<rparr>
       False ''f1'' None Form_initial_cells"

section \<open>Facts shared by the proofs\<close>

lemma validateField_nonempty: "validateField sch fieldName v = Some err \<Longrightarrow> err \<noteq> []"
  by (auto simp: validateField_def
      split: option.splits parse_outcome.splits list.splits if_splits)

lemma signup_validate_empty:
  "validateField (Some signup_schema) ''email'' [] = Some ''Email is required''"
  by (simp add: signup_schema_def validateField_def)

lemma signup_validate_ok:
  "validateField (Some signup_schema) ''email'' ''a@b.c'' = None"
  by (simp add: signup_schema_def validateField_def)

lemma signup_schema_dom: "dom signup_schema = {''email'', ''firstName''}"
  by (auto simp: signup_schema_def)

lemma signup_context_schema: "schema signup_context = Some signup_schema"
  by (simp add: signup_context_def Form_contextValue_def)

lemma plain_context_schema: "schema plain_context = None"
  by (simp add: plain_context_def Form_contextValue_def)

lemma signup_context_fields:
  "fieldErrors signup_context = [''email'' \<mapsto> ''Email already taken'']"
  "clientFieldErrors signup_context = Map.empty"
  "clearedServerErrors signup_context = {}"
  "formId signup_context = ''f1''"
  by (simp_all add: signup_context_def Form_contextValue_def signup_state_def
      Form_initial_cells_def)

lemma fresh_context_fields:
  "fieldErrors fresh_context = Map.empty"
  "clientFieldErrors fresh_context = Map.empty"
  "clearedServerErrors fresh_context = {}"
  "formId fresh_context = ''f1''"
  by (simp_all add: fresh_context_def Form_contextValue_def Form_initial_cells_def)

lemma ordinary_names:
  "''email'' \<notin> objectPrototypeKeys"
  "''firstName'' \<notin> objectPrototypeKeys"
  "''nickname'' \<notin> objectPrototypeKeys"
  "''constructor'' \<in> objectPrototypeKeys"
  by (simp_all add: objectPrototypeKeys_def)

lemma readEntry_own: "obj key = Some s \<Longrightarrow> readEntry obj key = Message s"
  by (simp add: readEntry_def)

lemma readEntry_ordinary: "key \<notin> objectPrototypeKeys \<Longrightarrow> readEntry obj key = entryOf (obj key)"
  by (simp add: readEntry_def entryOf_def split: option.splits)

lemma truthyEntry_entryOf: "truthyEntry (entryOf v) = truthy v"
  by (simp add: truthyEntry_def entryOf_def truthy_def split: option.splits)

lemma Form_contextValue_cells:
  "clientFieldErrors (Form_contextValue st p fid sch cells) = clientFieldErrors cells"
  "clearedServerErrors (Form_contextValue st p fid sch cells) = clearedServerErrors cells"
  "formId (Form_contextValue st p fid sch cells) = fid"
  by (simp_all add: Form_contextValue_def)

lemma FormField_Some:
  "FormField (Some fc) nm =
     Inr \<lparr> name = nm, fieldId = formId fc @ ''-'' @ nm,
           hasError = truthyEntry (or_entry (if nm \<in> clearedServerErrors fc then NoEntry
                                             else readEntry (fieldErrors fc) nm)
                                            (readEntry (clientFieldErrors fc) nm)),
           errorMessage = or_entry (if nm \<in> clearedServerErrors fc then NoEntry
                                    else readEntry (fieldErrors fc) nm)
                                   (readEntry (clientFieldErrors fc) nm) \<rparr>"
  by (simp add: FormField_def useFormContext_def Let_def)

lemma signup_FormField_email: "FormField (Some signup_context) ''email'' = Inr signup_email_field"
  by (simp add: FormField_Some signup_context_fields signup_email_field_def or_entry_def
      truthyEntry_def readEntry_def)

lemma getFieldInfo_missing:
  \<open>String_js fieldName \<notin> dom shape \<Longrightarrow> String_js fieldName \<notin> objectPrototypeKeys \<Longrightarrow>
     getFieldInfo upper shape fieldName
       = Inl (Error (''Field "'' @ String_js fieldName @ ''" not found in schema''))\<close>
  by (simp add: getFieldInfo_def)


lemma components_Some:
  "FormInput upper (Some fc) ps = FormInput_resolvedProps upper fc ps"
  "FormTextarea upper (Some fc) ps = contextResolvedProps ''FormTextarea'' upper fc ps"
  "FormSelect upper (Some fc) ps = contextResolvedProps ''FormSelect'' upper fc ps"
  "FormRadioGroup upper (Some fc) ps = contextResolvedProps ''FormRadioGroup'' upper fc ps"
  "FormCheckbox (Some fc) ps = FormCheckbox_resolvedProps fc ps"
  by (simp_all add: FormInput_def FormTextarea_def FormSelect_def FormRadioGroup_def
      FormCheckbox_def withFormContext_def useFormContext_def FormTextarea_resolvedProps_def
      FormSelect_resolvedProps_def FormRadioGroup_resolvedProps_def)

lemma components_None:
  "FormInput upper None ps
     = Inl (Error ''useFormContext must be used within a Form component'')"
  "FormTextarea upper None ps
     = Inl (Error ''useFormContext must be used within a Form component'')"
  "FormSelect upper None ps
     = Inl (Error ''useFormContext must be used within a Form component'')"
  "FormRadioGroup upper None ps
     = Inl (Error ''useFormContext must be used within a Form component'')"
  "FormCheckbox None ps = Inl (Error ''useFormContext must be used within a Form component'')"
  by (simp_all add: FormInput_def FormTextarea_def FormSelect_def FormRadioGroup_def
      FormCheckbox_def withFormContext_def useFormContext_def)




lemma humanizeFieldName_email: "humanizeFieldName toUpperCase_ascii ''email'' = ''Email''"
  by code_simp

text \<open>
  For a field whose name \<^verbatim>\<open>Object.prototype\<close> does not have, what \<^verbatim>\<open>FormMessage\<close> shows is
  the merge of the two sources: the server message while it is non-empty and the field is
  not in \<^verbatim>\<open>clearedServerErrors\<close>, otherwise the client message if it is non-empty, and
  otherwise nothing is rendered.
\<close>

lemma FormMessage_merges_for_ordinary_name:
  assumes "nm \<notin> objectPrototypeKeys"
  shows "\<exists>f. FormField (Some fc) nm = Inr f
     \<and> FormMessage (Some f) ps
        = Inr (map_option
            (\<lambda>m. \<lparr> attrs = [''id'' \<mapsto> JStr (formId fc @ ''-'' @ nm @ ''-error'')]
                             ++ (ps |` (- {''className'', ''children''})),
                   children = Message m \<rparr>)
            (if nm \<notin> clearedServerErrors fc \<and> truthy (fieldErrors fc nm) then fieldErrors fc nm
             else if truthy (clientFieldErrors fc nm) then clientFieldErrors fc nm
             else None))"
  using assms
  by (auto simp: FormField_Some FormMessage_def useFormField_def or_entry_def
      readEntry_ordinary entryOf_def truthyEntry_def truthy_def split: option.splits)

section \<open>The error state and its handlers\<close>

text \<open>
  Claim C10. \<^verbatim>\<open>clearFieldError\<close> for a field name changes only that field's entries: every
  other field keeps its client error, and the set of cleared server errors gains exactly the
  named field, whether or not it had a server error (the function does not read the server
  errors). \<^verbatim>\<open>setFieldError\<close> leaves every other field's client error as it was and leaves
  the set of cleared server errors unchanged.
\<close>

theorem clearFieldError_setFieldError_frame:
  "(other \<noteq> fieldName \<longrightarrow>
      clientFieldErrors (clearFieldError fieldName cells) other = clientFieldErrors cells other)
   \<and> clientFieldErrors (clearFieldError fieldName cells) fieldName = None
   \<and> clearedServerErrors (clearFieldError fieldName cells)
        = insert fieldName (clearedServerErrors cells)
   \<and> (other \<noteq> fieldName \<longrightarrow>
        clientFieldErrors (setFieldError fieldName err cells) other = clientFieldErrors cells other)
   \<and> clientFieldErrors (setFieldError fieldName err cells) fieldName = Some err
   \<and> clearedServerErrors (setFieldError fieldName err cells) = clearedServerErrors cells"
  by (simp add: clearFieldError_def setFieldError_def)

theorem clearFieldError_setFieldError_frame_witness:
  "''age'' \<noteq> ''email''
   \<and> clientFieldErrors (clearFieldError ''email''
         \<lparr> clientFieldErrors = [''email'' \<mapsto> ''Invalid email'', ''age'' \<mapsto> ''Too young''],
           clearedServerErrors = {} \<rparr>) ''age'' = Some ''Too young''
   \<and> clearedServerErrors (clearFieldError ''email''
         \<lparr> clientFieldErrors = [''email'' \<mapsto> ''Invalid email'', ''age'' \<mapsto> ''Too young''],
           clearedServerErrors = {} \<rparr>) = {''email''}
   \<and> clientFieldErrors (setFieldError ''email'' ''Required''
         \<lparr> clientFieldErrors = [''email'' \<mapsto> ''Invalid email'', ''age'' \<mapsto> ''Too young''],
           clearedServerErrors = {} \<rparr>) ''age'' = Some ''Too young''
   \<and> clearedServerErrors (setFieldError ''email'' ''Required''
         \<lparr> clientFieldErrors = [''email'' \<mapsto> ''Invalid email'', ''age'' \<mapsto> ''Too young''],
           clearedServerErrors = {} \<rparr>) = {}"
  using clearFieldError_setFieldError_frame
    [of "''age''" "''email''"
        "\<lparr> clientFieldErrors = [''email'' \<mapsto> ''Invalid email'', ''age'' \<mapsto> ''Too young''],
           clearedServerErrors = {} \<rparr>" "''Required''"]
  by simp

text \<open>
  Claim C6. The blur handler validates the blurred value against the schema and updates the
  error state by the result alone: afterwards the field's client error is exactly what
  \<^verbatim>\<open>validateField\<close> returned, set by \<^verbatim>\<open>setFieldError\<close> when that is an error string and
  removed by \<^verbatim>\<open>clearFieldError\<close> when it is \<^verbatim>\<open>null\<close>. Without a schema \<^verbatim>\<open>validateField\<close>
  returns \<^verbatim>\<open>null\<close>, so a blur sets no error. The blur handlers of \<^verbatim>\<open>FormTextarea\<close> and
  \<^verbatim>\<open>FormSelect\<close> are the same function.
\<close>

theorem handleBlur_follows_validateField:
  "clientFieldErrors (FormInput_handleBlur fc nm v cells) nm = validateField (schema fc) nm v
   \<and> (validateField (schema fc) nm v = None \<longrightarrow>
        FormInput_handleBlur fc nm v cells = clearFieldError nm cells)
   \<and> (\<forall>err. validateField (schema fc) nm v = Some err \<longrightarrow>
        FormInput_handleBlur fc nm v cells = setFieldError nm err cells)
   \<and> (schema fc = None \<longrightarrow>
        validateField (schema fc) nm v = None
        \<and> clientFieldErrors (FormInput_handleBlur fc nm v cells) nm = None)
   \<and> FormTextarea_handleBlur = FormInput_handleBlur
   \<and> FormSelect_handleBlur = FormInput_handleBlur"
proof -
  have ne: "\<And>err. validateField (schema fc) nm v = Some err \<Longrightarrow> err \<noteq> []"
    by (rule validateField_nonempty)
  have a: "clientFieldErrors (FormInput_handleBlur fc nm v cells) nm
             = validateField (schema fc) nm v"
    using ne by (cases "validateField (schema fc) nm v")
      (simp_all add: FormInput_handleBlur_def clearFieldError_def setFieldError_def)
  have b: "validateField (schema fc) nm v = None \<longrightarrow>
        FormInput_handleBlur fc nm v cells = clearFieldError nm cells"
    by (simp add: FormInput_handleBlur_def)
  have c: "\<forall>err. validateField (schema fc) nm v = Some err \<longrightarrow>
        FormInput_handleBlur fc nm v cells = setFieldError nm err cells"
    using ne by (simp add: FormInput_handleBlur_def)
  have d: "schema fc = None \<longrightarrow> validateField (schema fc) nm v = None"
    by (simp add: validateField_def)
  show ?thesis
    using a b c d by (auto simp: FormTextarea_handleBlur_def FormSelect_handleBlur_def)
qed

theorem handleBlur_follows_validateField_witness:
  "clientFieldErrors (FormInput_handleBlur signup_context ''email'' [] Form_initial_cells) ''email''
     = Some ''Email is required''
   \<and> FormInput_handleBlur signup_context ''email'' [] Form_initial_cells
     = setFieldError ''email'' ''Email is required'' Form_initial_cells
   \<and> FormInput_handleBlur signup_context ''email'' ''a@b.c'' Form_initial_cells
     = clearFieldError ''email'' Form_initial_cells
   \<and> schema plain_context = None
   \<and> clientFieldErrors (FormInput_handleBlur plain_context ''email'' [] Form_initial_cells) ''email''
     = None"
  using handleBlur_follows_validateField [of signup_context "''email''" "[]" Form_initial_cells]
    handleBlur_follows_validateField [of signup_context "''email''" "''a@b.c''" Form_initial_cells]
    handleBlur_follows_validateField [of plain_context "''email''" "[]" Form_initial_cells]
  by (simp add: signup_validate_empty signup_validate_ok plain_context_schema
      signup_context_schema clearFieldError_def setFieldError_def)

text \<open>
  Claim C2. A field has a server-reported or a client error when the rendered context holds
  a non-empty message for it in \<^verbatim>\<open>fieldErrors\<close> or in \<^verbatim>\<open>clientFieldErrors\<close>. For such a
  field, when a change handler (of \<^verbatim>\<open>FormInput\<close>, \<^verbatim>\<open>FormTextarea\<close>, \<^verbatim>\<open>FormSelect\<close> or
  \<^verbatim>\<open>FormRadioGroup\<close>) runs with a value for which \<^verbatim>\<open>validateField\<close> returns \<^verbatim>\<open>null\<close>, the
  field's error is cleared: its name is no longer in \<^verbatim>\<open>clientFieldErrors\<close>, it is in
  \<^verbatim>\<open>clearedServerErrors\<close>, and the \<^verbatim>\<open>FormField\<close> of a render with those cells displays no
  message, neither the server's nor a client's, whatever the server reported. For a field
  name that \<^verbatim>\<open>Object.prototype\<close> does not have, the field then has no error at all.
\<close>

theorem handleChange_clears_error_when_valid:
  assumes has_error: "truthy (clientFieldErrors fc nm) \<or> truthy (fieldErrors fc nm)"
      and valid: "validateField (schema fc) nm v = None"
      and handler:
        "handleChange \<in> {FormInput_handleChange, FormTextarea_handleChange,
                          FormSelect_handleChange, FormRadioGroup_handleRadioChange}"
      and after: "cells' = handleChange fc nm v cells"
  shows "clientFieldErrors cells' nm = None
         \<and> nm \<in> clearedServerErrors cells'
         \<and> (\<exists>f. FormField (Some (Form_contextValue st pending fid sch cells')) nm = Inr f
                \<and> (\<forall>s. errorMessage f \<noteq> Message s)
                \<and> (nm \<notin> objectPrototypeKeys \<longrightarrow> \<not> hasError f \<and> errorMessage f = NoEntry))"
proof -
  have guard: "truthyEntry (readEntry (clientFieldErrors fc) nm)
               \<or> truthyEntry (readEntry (fieldErrors fc) nm)"
    using has_error by (auto simp: truthy_def readEntry_def truthyEntry_def split: option.splits)
  have eq: "cells' = clearFieldError nm cells"
    using guard valid handler after
    by (auto simp: FormSelect_handleChange_def FormRadioGroup_handleRadioChange_def
        FormTextarea_handleChange_def FormInput_handleChange_def FormInput_handleBlur_def
        truthy_def)
  have c: "clientFieldErrors cells' nm = None" and s: "nm \<in> clearedServerErrors cells'"
    by (simp_all add: eq clearFieldError_def)
  have shown: "or_entry NoEntry (readEntry (clientFieldErrors cells') nm)
                 = (if nm \<in> objectPrototypeKeys then ProtoMember nm else NoEntry)"
    using c by (simp add: or_entry_def truthyEntry_def readEntry_def)
  show ?thesis
    using c s shown by (simp add: FormField_Some Form_contextValue_cells truthyEntry_def)
qed

theorem handleChange_clears_error_when_valid_witness:
  "truthy (fieldErrors signup_context ''email'')
   \<and> validateField (schema signup_context) ''email'' ''a@b.c'' = None
   \<and> FormField (Some signup_context) ''email''
       = Inr \<lparr> name = ''email'', fieldId = ''f1-email'', hasError = True,
               errorMessage = Message ''Email already taken'' \<rparr>
   \<and> ''email'' \<in> clearedServerErrors
         (FormInput_handleChange signup_context ''email'' ''a@b.c'' Form_initial_cells)
   \<and> FormField (Some (Form_contextValue signup_state False ''f1'' (Some signup_schema)
         (FormInput_handleChange signup_context ''email'' ''a@b.c'' Form_initial_cells))) ''email''
       = Inr \<lparr> name = ''email'', fieldId = ''f1-email'', hasError = False,
               errorMessage = NoEntry \<rparr>"
proof -
  have e: "truthy (clientFieldErrors signup_context ''email'')
           \<or> truthy (fieldErrors signup_context ''email'')"
    by (simp add: signup_context_fields truthy_def)
  have v: "validateField (schema signup_context) ''email'' ''a@b.c'' = None"
    by (simp add: signup_context_schema signup_validate_ok)
  have h: "FormInput_handleChange \<in> {FormInput_handleChange, FormTextarea_handleChange,
                          FormSelect_handleChange, FormRadioGroup_handleRadioChange}"
    by simp
  have before: "FormField (Some signup_context) ''email''
       = Inr \<lparr> name = ''email'', fieldId = ''f1-email'', hasError = True,
               errorMessage = Message ''Email already taken'' \<rparr>"
    by (simp add: signup_FormField_email signup_email_field_def)
  show ?thesis
    using handleChange_clears_error_when_valid [OF e v h refl,
        of Form_initial_cells signup_state False "''f1''" "Some signup_schema"] e v before
    by (auto simp: signup_context_fields truthy_def ordinary_names FormField_Some
        Form_contextValue_cells)
qed

section \<open>What a field shows\<close>

text \<open>
  Claim C1, as stated, fails: a blur on a field that has a server error and an invalid value
  calls \<^verbatim>\<open>setFieldError\<close>, which writes the client map without looking at the server map.
  In the sign-up form, after a blur of the empty \<^verbatim>\<open>email\<close> input, the next render has an
  entry for \<^verbatim>\<open>email\<close> in \<^verbatim>\<open>fieldErrors\<close> and in \<^verbatim>\<open>clientFieldErrors\<close>.
\<close>

theorem error_maps_exclusive_counterexample:
  "''email'' \<in> dom (fieldErrors
      (Form_contextValue signup_state False ''f1'' (Some signup_schema)
         (FormInput_handleBlur signup_context ''email'' [] Form_initial_cells)))
   \<and> ''email'' \<in> dom (clientFieldErrors
      (Form_contextValue signup_state False ''f1'' (Some signup_schema)
         (FormInput_handleBlur signup_context ''email'' [] Form_initial_cells)))"
  by (simp add: Form_contextValue_def signup_state_def FormInput_handleBlur_def
      signup_context_schema signup_validate_empty setFieldError_def)

text \<open>
  Claim C1, amended. A field name can have an entry in both error maps in the same render.
  What a render of a \<^verbatim>\<open>FormField\<close> guarantees, for a field name that \<^verbatim>\<open>Object.prototype\<close>
  does not have, is that it shows one of the two: the server entry while that is non-empty
  and the field is not in \<^verbatim>\<open>clearedServerErrors\<close>, and the client entry otherwise. The
  client map is empty when the form mounts, \<^verbatim>\<open>setFieldError\<close> adds the field's name to it
  and \<^verbatim>\<open>clearFieldError\<close> removes it.
\<close>

theorem FormField_shows_one_source:
  "(nm \<notin> objectPrototypeKeys \<longrightarrow>
      (\<exists>f. FormField (Some fc) nm = Inr f
         \<and> errorMessage f
            = entryOf (if nm \<notin> clearedServerErrors fc \<and> truthy (fieldErrors fc nm)
                       then fieldErrors fc nm else clientFieldErrors fc nm)))
   \<and> dom (clientFieldErrors (setFieldError nm err cells)) = insert nm (dom (clientFieldErrors cells))
   \<and> dom (clientFieldErrors (clearFieldError nm cells)) = dom (clientFieldErrors cells) - {nm}
   \<and> dom (clientFieldErrors Form_initial_cells) = {}"
proof -
  have shown: "nm \<notin> objectPrototypeKeys \<longrightarrow>
      (\<exists>f. FormField (Some fc) nm = Inr f
         \<and> errorMessage f
            = entryOf (if nm \<notin> clearedServerErrors fc \<and> truthy (fieldErrors fc nm)
                       then fieldErrors fc nm else clientFieldErrors fc nm))"
    by (auto simp: FormField_Some or_entry_def readEntry_def entryOf_def
        truthyEntry_def truthy_def split: option.splits)
  have cells:
    "dom (clientFieldErrors (setFieldError nm err cells)) = insert nm (dom (clientFieldErrors cells))"
    "dom (clientFieldErrors (clearFieldError nm cells)) = dom (clientFieldErrors cells) - {nm}"
    "dom (clientFieldErrors Form_initial_cells) = {}"
    by (auto simp: setFieldError_def clearFieldError_def Form_initial_cells_def
        split: if_splits)
  from shown cells show ?thesis by blast
qed

theorem FormField_shows_one_source_witness:
  "''email'' \<notin> objectPrototypeKeys
   \<and> (\<exists>f. FormField (Some (Form_contextValue signup_state False ''f1'' (Some signup_schema)
            (setFieldError ''email'' ''Email is required'' Form_initial_cells))) ''email'' = Inr f
       \<and> errorMessage f = Message ''Email already taken'')
   \<and> dom (clientFieldErrors (setFieldError ''email'' ''Email is required'' Form_initial_cells))
       = {''email''}"
  using FormField_shows_one_source
    [of "''email''" "Form_contextValue signup_state False ''f1'' (Some signup_schema)
           (setFieldError ''email'' ''Email is required'' Form_initial_cells)"
        "''Email is required''" Form_initial_cells]
  by (simp add: Form_contextValue_def signup_state_def setFieldError_def Form_initial_cells_def
      truthy_def entryOf_def ordinary_names)

text \<open>
  Claim C4. The message \<^verbatim>\<open>FormMessage\<close> displays should be the merge of the server and
  the client source, and nothing when neither has an error for the field. For every field
  name that \<^verbatim>\<open>Object.prototype\<close> does not have, the code does that (lemma
  \<open>FormMessage_merges_for_ordinary_name\<close>). For a name such as \<^verbatim>\<open>constructor\<close> the code
  departs from it: in a form without any server or client error, the reads
  \<^verbatim>\<open>fieldErrors[name]\<close> and \<^verbatim>\<open>clientFieldErrors[name]\<close> find the inherited member, so the
  field context reports an error whose message is that member, not a string, and
  \<^verbatim>\<open>FormMessage\<close> renders the error paragraph with it as child.
\<close>

theorem FormMessage_constructor_field:
  "fieldErrors fresh_context ''constructor'' = None
   \<and> clientFieldErrors fresh_context ''constructor'' = None
   \<and> FormField (Some fresh_context) ''constructor''
       = Inr \<lparr> name = ''constructor'', fieldId = ''f1-constructor'', hasError = True,
               errorMessage = ProtoMember ''constructor'' \<rparr>
   \<and> FormMessage (Some \<lparr> name = ''constructor'', fieldId = ''f1-constructor'', hasError = True,
                         errorMessage = ProtoMember ''constructor'' \<rparr>) Map.empty
       = Inr (Some \<lparr> attrs = [''id'' \<mapsto> JStr ''f1-constructor-error''],
                     children = ProtoMember ''constructor'' \<rparr>)"
  by (simp add: FormField_Some fresh_context_fields or_entry_def truthyEntry_def readEntry_def
      ordinary_names FormMessage_def useFormField_def)

theorem FormMessage_constructor_field_witness:
  "messageAttr ''id''
     (FormMessage (Some \<lparr> name = ''constructor'', fieldId = ''f1-constructor'', hasError = True,
                          errorMessage = ProtoMember ''constructor'' \<rparr>) Map.empty)
     = Inr (Some (JStr ''f1-constructor-error''))"
  using FormMessage_constructor_field by (simp add: messageAttr_def)

text \<open>
  Claim C7, as stated, fails for the label: \<^verbatim>\<open>FormLabel\<close> spreads the caller's props after
  its own \<^verbatim>\<open>htmlFor\<close>, so a label that is given an \<^verbatim>\<open>htmlFor\<close> of its own points
  elsewhere than at the control, whose \<^verbatim>\<open>id\<close> is the field identity.
\<close>

theorem label_htmlFor_counterexample:
  "FormField (Some signup_context) ''email'' = Inr signup_email_field
   \<and> attr ''htmlFor'' (FormLabel (Some signup_email_field) [''htmlFor'' \<mapsto> JStr ''other''])
       = Inr (Some (JStr ''other''))
   \<and> attr ''id'' (FormControl (Some signup_email_field) Map.empty)
       = Inr (Some (JStr ''f1-email''))"
  by (simp add: signup_FormField_email attr_def FormLabel_def FormControl_def useFormField_def
      signup_email_field_def)

text \<open>
  Claim C7, amended. The field identity is the form's id, a hyphen and the field name. The
  control always gets it as \<^verbatim>\<open>id\<close>, and gets \<^verbatim>\<open>aria-describedby\<close> equal to the identity
  followed by \<^verbatim>\<open>-error\<close> exactly when the field has an error (\<^verbatim>\<open>undefined\<close> otherwise).
  The label's \<^verbatim>\<open>htmlFor\<close> is the identity unless the caller passes an \<^verbatim>\<open>htmlFor\<close> prop to
  \<^verbatim>\<open>FormLabel\<close>, which then replaces it. The error element is rendered exactly when the
  field has an error, and its \<^verbatim>\<open>id\<close> is the identity followed by \<^verbatim>\<open>-error\<close> unless the
  caller passes an \<^verbatim>\<open>id\<close> prop to \<^verbatim>\<open>FormMessage\<close>.
\<close>

theorem field_identity_links_label_control_message:
  assumes field: "FormField (Some fc) nm = Inr f"
  shows "fieldId f = formId fc @ ''-'' @ nm
     \<and> attr ''id'' (FormControl (Some f) child) = Inr (Some (JStr (fieldId f)))
     \<and> attr ''htmlFor'' (FormLabel (Some f) ps)
         = Inr (if ''htmlFor'' \<in> dom ps then ps ''htmlFor'' else Some (JStr (fieldId f)))
     \<and> attr ''aria-describedby'' (FormControl (Some f) child)
         = Inr (Some (if hasError f then JStr (fieldId f @ ''-error'') else Undefined))
     \<and> (FormMessage (Some f) ps = Inr None) = (\<not> hasError f)
     \<and> messageAttr ''id'' (FormMessage (Some f) ps)
         = Inr (if \<not> hasError f then None
                else if ''id'' \<in> dom ps then ps ''id''
                else Some (JStr (fieldId f @ ''-error'')))"
proof -
  have f: "f = \<lparr> name = nm, fieldId = formId fc @ ''-'' @ nm,
           hasError = truthyEntry (or_entry (if nm \<in> clearedServerErrors fc then NoEntry
                                             else readEntry (fieldErrors fc) nm)
                                            (readEntry (clientFieldErrors fc) nm)),
           errorMessage = or_entry (if nm \<in> clearedServerErrors fc then NoEntry
                                    else readEntry (fieldErrors fc) nm)
                                   (readEntry (clientFieldErrors fc) nm) \<rparr>"
    using field by (simp add: FormField_Some)
  have he: "hasError f = truthyEntry (errorMessage f)"
    by (simp add: f)
  have 1: "fieldId f = formId fc @ ''-'' @ nm"
    by (simp add: f)
  have 2: "attr ''id'' (FormControl (Some f) child) = Inr (Some (JStr (fieldId f)))"
    by (simp add: attr_def FormControl_def useFormField_def)
  have 3: "attr ''htmlFor'' (FormLabel (Some f) ps)
         = Inr (if ''htmlFor'' \<in> dom ps then ps ''htmlFor'' else Some (JStr (fieldId f)))"
    by (auto simp: attr_def FormLabel_def useFormField_def map_add_def restrict_map_def
        split: option.splits)
  have 4: "attr ''aria-describedby'' (FormControl (Some f) child)
         = Inr (Some (if hasError f then JStr (fieldId f @ ''-error'') else Undefined))"
    by (simp add: attr_def FormControl_def useFormField_def)
  have 5: "(FormMessage (Some f) ps = Inr None) = (\<not> hasError f)"
    using he by (simp add: FormMessage_def useFormField_def)
  have 6: "messageAttr ''id'' (FormMessage (Some f) ps)
         = Inr (if \<not> hasError f then None
                else if ''id'' \<in> dom ps then ps ''id''
                else Some (JStr (fieldId f @ ''-error'')))"
    using he by (auto simp: messageAttr_def FormMessage_def useFormField_def map_add_def
        restrict_map_def split: option.splits)
  from 1 2 3 4 5 6 show ?thesis by blast
qed

theorem field_identity_links_label_control_message_witness:
  "FormField (Some signup_context) ''email'' = Inr signup_email_field
   \<and> fieldId signup_email_field = ''f1-email''
   \<and> attr ''id'' (FormControl (Some signup_email_field) [''id'' \<mapsto> JStr ''mine''])
       = Inr (Some (JStr ''f1-email''))
   \<and> attr ''htmlFor'' (FormLabel (Some signup_email_field) Map.empty)
       = Inr (Some (JStr ''f1-email''))
   \<and> attr ''aria-describedby'' (FormControl (Some signup_email_field) [''id'' \<mapsto> JStr ''mine''])
       = Inr (Some (JStr ''f1-email-error''))
   \<and> messageAttr ''id'' (FormMessage (Some signup_email_field) Map.empty)
       = Inr (Some (JStr ''f1-email-error''))"
  using field_identity_links_label_control_message
    [OF signup_FormField_email, of "[''id'' \<mapsto> JStr ''mine'']" Map.empty]
  by (simp add: signup_FormField_email signup_email_field_def signup_context_fields)

section \<open>Misuse and prop resolution\<close>

text \<open>
  Claim C3, as stated, fails for \<^verbatim>\<open>validateField\<close>: for a field name the schema's shape
  does not have, \<^verbatim>\<open>getFieldInfo\<close> throws, but \<^verbatim>\<open>validateField\<close> returns \<^verbatim>\<open>null\<close>
  (its guard \<^verbatim>\<open>if (!fieldSchema) return null\<close>), and nothing it does can throw.
\<close>

theorem validateField_missing_field_counterexample:
  \<open>''nickname'' \<notin> dom signup_schema
   \<and> getFieldInfo toUpperCase_ascii signup_schema (JStr ''nickname'')
       = Inl (Error ''Field "nickname" not found in schema'')
   \<and> validateField (Some signup_schema) ''nickname'' ''x'' = None\<close>
  by (simp add: signup_schema_dom getFieldInfo_def ordinary_names)
    (simp add: signup_schema_def validateField_def)

text \<open>
  Claim C3, amended. \<^verbatim>\<open>useFormContext\<close> and \<^verbatim>\<open>useFormField\<close> throw outside their
  provider, and so does every component that calls them: \<^verbatim>\<open>FormField\<close>, \<^verbatim>\<open>FormError\<close>,
  \<^verbatim>\<open>FormSubmit\<close> and the five input components for the first, \<^verbatim>\<open>FormLabel\<close>,
  \<^verbatim>\<open>FormControl\<close> and \<^verbatim>\<open>FormMessage\<close> for the second. A field name that is neither a key
  of the schema's shape nor a property name of \<^verbatim>\<open>Object.prototype\<close> makes
  \<^verbatim>\<open>getFieldInfo\<close> throw, and with it the prop resolution of \<^verbatim>\<open>FormInput\<close> (schema prop or
  context schema), \<^verbatim>\<open>FormTextarea\<close>, \<^verbatim>\<open>FormSelect\<close> and \<^verbatim>\<open>FormRadioGroup\<close>.
  \<^verbatim>\<open>validateField\<close> does not throw for a field name that is not a key of the shape: it
  returns \<^verbatim>\<open>null\<close>.
\<close>

theorem misuse_throws_except_in_validateField:
  \<open>useFormContext None = Inl (Error ''useFormContext must be used within a Form component'')
   \<and> useFormField None = Inl (Error ''useFormField must be used within a FormField component'')
   \<and> FormField None nm = Inl (Error ''useFormContext must be used within a Form component'')
   \<and> FormError None ps = Inl (Error ''useFormContext must be used within a Form component'')
   \<and> FormSubmit None ps = Inl (Error ''useFormContext must be used within a Form component'')
   \<and> FormInput upper None ps
        = Inl (Error ''useFormContext must be used within a Form component'')
   \<and> FormTextarea upper None ps
        = Inl (Error ''useFormContext must be used within a Form component'')
   \<and> FormSelect upper None ps
        = Inl (Error ''useFormContext must be used within a Form component'')
   \<and> FormCheckbox None ps = Inl (Error ''useFormContext must be used within a Form component'')
   \<and> FormRadioGroup upper None ps
        = Inl (Error ''useFormContext must be used within a Form component'')
   \<and> FormLabel None ps = Inl (Error ''useFormField must be used within a FormField component'')
   \<and> FormControl None ps = Inl (Error ''useFormField must be used within a FormField component'')
   \<and> FormMessage None ps = Inl (Error ''useFormField must be used within a FormField component'')
   \<and> (String_js fieldName \<notin> dom shape \<and> String_js fieldName \<notin> objectPrototypeKeys \<longrightarrow>
        getFieldInfo upper shape fieldName
          = Inl (Error (''Field "'' @ String_js fieldName @ ''" not found in schema'')))
   \<and> (isSchemaProps ps \<and> getProp ps ''schema'' = JSchema shape
        \<and> String_js (getProp ps ''field'') \<notin> dom shape
        \<and> String_js (getProp ps ''field'') \<notin> objectPrototypeKeys \<longrightarrow>
        FormInput upper (Some fc) ps
          = Inl (Error (''Field "'' @ String_js (getProp ps ''field'') @ ''" not found in schema'')))
   \<and> (''field'' \<in> dom ps \<and> ''name'' \<notin> dom ps \<and> schema fc = Some shape
        \<and> String_js (getProp ps ''field'') \<notin> dom shape
        \<and> String_js (getProp ps ''field'') \<notin> objectPrototypeKeys \<longrightarrow>
        (''schema'' \<notin> dom ps \<longrightarrow>
           FormInput upper (Some fc) ps
             = Inl (Error (''Field "'' @ String_js (getProp ps ''field'') @ ''" not found in schema'')))
        \<and> FormTextarea upper (Some fc) ps
             = Inl (Error (''Field "'' @ String_js (getProp ps ''field'') @ ''" not found in schema''))
        \<and> FormSelect upper (Some fc) ps
             = Inl (Error (''Field "'' @ String_js (getProp ps ''field'') @ ''" not found in schema''))
        \<and> FormRadioGroup upper (Some fc) ps
             = Inl (Error (''Field "'' @ String_js (getProp ps ''field'') @ ''" not found in schema'')))
   \<and> (fieldKey \<notin> dom shape \<longrightarrow> validateField (Some shape) fieldKey v = None)\<close>
proof -
  have hooks:
    "useFormContext None = Inl (Error ''useFormContext must be used within a Form component'')"
    "useFormField None = Inl (Error ''useFormField must be used within a FormField component'')"
    by (simp_all add: useFormContext_def useFormField_def)
  have elems:
    "FormField None nm = Inl (Error ''useFormContext must be used within a Form component'')"
    "FormError None ps = Inl (Error ''useFormContext must be used within a Form component'')"
    "FormSubmit None ps = Inl (Error ''useFormContext must be used within a Form component'')"
    "FormLabel None ps = Inl (Error ''useFormField must be used within a FormField component'')"
    "FormControl None ps = Inl (Error ''useFormField must be used within a FormField component'')"
    "FormMessage None ps = Inl (Error ''useFormField must be used within a FormField component'')"
    by (simp_all add: FormField_def FormError_def FormSubmit_def FormLabel_def FormControl_def
        FormMessage_def hooks)
  have v: "fieldKey \<notin> dom shape \<longrightarrow> validateField (Some shape) fieldKey v = None"
    by (auto simp: validateField_def split: option.splits)
  have si: \<open>isSchemaProps ps \<and> getProp ps ''schema'' = JSchema shape
        \<and> String_js (getProp ps ''field'') \<notin> dom shape
        \<and> String_js (getProp ps ''field'') \<notin> objectPrototypeKeys \<longrightarrow>
        FormInput upper (Some fc) ps
          = Inl (Error (''Field "'' @ String_js (getProp ps ''field'') @ ''" not found in schema''))\<close>
    by (simp add: components_Some FormInput_resolvedProps_def getFieldInfo_missing)
  have ci: \<open>''field'' \<in> dom ps \<and> ''name'' \<notin> dom ps \<and> schema fc = Some shape
        \<and> String_js (getProp ps ''field'') \<notin> dom shape
        \<and> String_js (getProp ps ''field'') \<notin> objectPrototypeKeys \<and> ''schema'' \<notin> dom ps \<longrightarrow>
           FormInput upper (Some fc) ps
             = Inl (Error (''Field "'' @ String_js (getProp ps ''field'') @ ''" not found in schema''))\<close>
    by (simp add: components_Some FormInput_resolvedProps_def getFieldInfo_missing
        isSchemaProps_def isContextProps_def)
  have cr: \<open>\<And>c. ''field'' \<in> dom ps \<and> ''name'' \<notin> dom ps \<and> schema fc = Some shape
        \<and> String_js (getProp ps ''field'') \<notin> dom shape
        \<and> String_js (getProp ps ''field'') \<notin> objectPrototypeKeys \<longrightarrow>
           contextResolvedProps c upper fc ps
             = Inl (Error (''Field "'' @ String_js (getProp ps ''field'') @ ''" not found in schema''))\<close>
    by (simp add: contextResolvedProps_def getFieldInfo_missing)
  show ?thesis
    using hooks elems v si ci cr [of "''FormTextarea''"] cr [of "''FormSelect''"]
      cr [of "''FormRadioGroup''"] getFieldInfo_missing [of fieldName shape upper]
    by (simp add: components_Some components_None)
qed

theorem misuse_throws_except_in_validateField_witness:
  \<open>FormInput toUpperCase_ascii None [''field'' \<mapsto> JStr ''nickname'']
     = Inl (Error ''useFormContext must be used within a Form component'')
   \<and> FormSubmit None [''field'' \<mapsto> JStr ''nickname'']
     = Inl (Error ''useFormContext must be used within a Form component'')
   \<and> getFieldInfo toUpperCase_ascii signup_schema (JStr ''nickname'')
     = Inl (Error ''Field "nickname" not found in schema'')
   \<and> FormInput toUpperCase_ascii (Some signup_context) [''field'' \<mapsto> JStr ''nickname'']
     = Inl (Error ''Field "nickname" not found in schema'')
   \<and> FormSelect toUpperCase_ascii (Some signup_context) [''field'' \<mapsto> JStr ''nickname'']
     = Inl (Error ''Field "nickname" not found in schema'')
   \<and> FormInput toUpperCase_ascii (Some plain_context)
        [''schema'' \<mapsto> JSchema signup_schema, ''field'' \<mapsto> JStr ''nickname'']
     = Inl (Error ''Field "nickname" not found in schema'')
   \<and> validateField (Some signup_schema) ''nickname'' ''x'' = None\<close>
  using misuse_throws_except_in_validateField
      [of "''email''" "[''field'' \<mapsto> JStr ''nickname'']" toUpperCase_ascii "JStr ''nickname''"
          signup_schema signup_context "''nickname''" "''x''"]
    misuse_throws_except_in_validateField
      [of "''email''" "[''schema'' \<mapsto> JSchema signup_schema, ''field'' \<mapsto> JStr ''nickname'']"
          toUpperCase_ascii "JStr ''nickname''" signup_schema plain_context "''nickname''" "''x''"]
  by (simp add: signup_schema_dom signup_context_schema isSchemaProps_def getProp_def
      ordinary_names)




text \<open>
  Claim C9. \<^verbatim>\<open>FormCheckbox\<close> in context mode (a \<^verbatim>\<open>field\<close> prop and no \<^verbatim>\<open>name\<close> prop)
  never throws for a missing schema: inside a form it resolves its name to the \<^verbatim>\<open>field\<close>
  value itself, and the result does not depend on the form's schema. With the same props and
  no schema in the form, \<^verbatim>\<open>FormTextarea\<close>, \<^verbatim>\<open>FormSelect\<close> and \<^verbatim>\<open>FormRadioGroup\<close> throw,
  and so does \<^verbatim>\<open>FormInput\<close> when the props carry no \<^verbatim>\<open>schema\<close> either.
\<close>

theorem FormCheckbox_needs_no_schema:
  assumes "''field'' \<in> dom ps" and "''name'' \<notin> dom ps"
  shows "FormCheckbox (Some fc) ps
           = Inr ([''name'' \<mapsto> getProp ps ''field''] ++ (ps |` (- {''field''})))
     \<and> attr ''name'' (FormCheckbox (Some fc) ps) = Inr (ps ''field'')
     \<and> FormCheckbox (Some (fc \<lparr> schema := None \<rparr>)) ps = FormCheckbox (Some fc) ps
     \<and> (schema fc = None \<longrightarrow>
          (''schema'' \<notin> dom ps \<longrightarrow> (\<exists>m. FormInput upper (Some fc) ps = Inl (Error m)))
          \<and> (\<exists>m. FormTextarea upper (Some fc) ps = Inl (Error m))
          \<and> (\<exists>m. FormSelect upper (Some fc) ps = Inl (Error m))
          \<and> (\<exists>m. FormRadioGroup upper (Some fc) ps = Inl (Error m)))"
  using assms
  by (auto simp: components_Some FormCheckbox_resolvedProps_def attr_def map_add_def
      restrict_map_def getProp_def contextResolvedProps_def FormInput_resolvedProps_def
      isSchemaProps_def isContextProps_def split: option.splits)

theorem FormCheckbox_needs_no_schema_witness:
  \<open>''field'' \<in> dom [''field'' \<mapsto> JStr ''terms''] \<and> ''name'' \<notin> dom [''field'' \<mapsto> JStr ''terms'']
   \<and> schema plain_context = None
   \<and> attr ''name'' (FormCheckbox (Some plain_context) [''field'' \<mapsto> JStr ''terms''])
       = Inr (Some (JStr ''terms''))
   \<and> (\<exists>m. FormSelect toUpperCase_ascii (Some plain_context) [''field'' \<mapsto> JStr ''terms'']
            = Inl (Error m))
   \<and> (\<exists>m. FormInput toUpperCase_ascii (Some plain_context) [''field'' \<mapsto> JStr ''terms'']
            = Inl (Error m))\<close>
proof -
  have f: "''field'' \<in> dom [''field'' \<mapsto> JStr ''terms'']"
    and n: "''name'' \<notin> dom [''field'' \<mapsto> JStr ''terms'']"
    by simp_all
  show ?thesis
    using FormCheckbox_needs_no_schema [OF f n, of plain_context toUpperCase_ascii]
    by (simp add: plain_context_schema attr_def getProp_def)
qed

end
